theory Spec2Isabelle
  imports Main
begin

section \<open>JavaScript strings\<close>

text \<open>
  A JavaScript string is a sequence of UTF-16 code units. The model reads a \<^typ>\<open>char\<close>
  as a code unit below 256 (the Latin-1 range), so a \<^typ>\<open>string\<close> stands for a
  JavaScript string whose code units all lie in that range. On that range
  \<^verbatim>\<open>toLowerCase\<close> maps A-Z, U+00C0-U+00D6 and U+00D8-U+00DE to the code unit 32 above
  and leaves every other code unit alone, and \<^verbatim>\<open>trim\<close> strips U+0009-U+000D, U+0020 and
  U+00A0.
\<close>

definition toLowerChar :: "char \<Rightarrow> char" where
  "toLowerChar c =
     (let n = (of_char c :: nat)
      in if (65 \<le> n \<and> n \<le> 90) \<or> (192 \<le> n \<and> n \<le> 214) \<or> (216 \<le> n \<and> n \<le> 222)
         then char_of (n + 32) else c)"

definition toLowerCase :: "string \<Rightarrow> string" where
  "toLowerCase s = map toLowerChar s"

definition isWhiteSpace :: "char \<Rightarrow> bool" where
  "isWhiteSpace c = ((of_char c :: nat) \<in> {9, 10, 11, 12, 13, 32, 160})"

definition trim :: "string \<Rightarrow> string" where
  "trim s = rev (dropWhile isWhiteSpace (rev (dropWhile isWhiteSpace s)))"

text \<open>
  \<^verbatim>\<open>s.includes(t)\<close>: \<open>t\<close> occurs in \<open>s\<close> as a contiguous run of code units. (The name
  \<open>includes\<close> is a keyword of Isabelle.)
\<close>

fun includesStr :: "string \<Rightarrow> string \<Rightarrow> bool" where
  "includesStr [] t = (t = [])"
| "includesStr (c # s) t = (take (length t) (c # s) = t \<or> includesStr s t)"

text \<open>\<^verbatim>\<open>xs.join(sep)\<close> on an array of strings.\<close>

fun join :: "string \<Rightarrow> string list \<Rightarrow> string" where
  "join sep [] = []"
| "join sep [x] = x"
| "join sep (x # y # ys) = x @ sep @ join sep (y # ys)"

text \<open>The decimal numeral a template literal prints for a non-negative integer.\<close>

fun numberToString :: "nat \<Rightarrow> string" where
  "numberToString n =
     (if n < 10 then [char_of (48 + n)]
      else numberToString (n div 10) @ [char_of (48 + n mod 10)])"

text \<open>
  Truthiness of a string-valued property that may be missing: \<^verbatim>\<open>null\<close>, \<^verbatim>\<open>undefined\<close>
  (both \<^term>\<open>None\<close>) and the empty string are falsy.
\<close>

definition truthy :: "string option \<Rightarrow> bool" where
  "truthy v = (case v of None \<Rightarrow> False | Some s \<Rightarrow> s \<noteq> [])"

text \<open>\<^verbatim>\<open>v || ''\<close> for such a property.\<close>

definition orEmpty :: "string option \<Rightarrow> string" where
  "orEmpty v = (case v of None \<Rightarrow> [] | Some s \<Rightarrow> s)"

section \<open>The generation pipeline of the backend\<close>

text \<open>
  The story-to-comic pipeline runs in the backend (server.py), which is not among the source
  files: the frontend only posts to it. Its components are therefore modelled from the
  specification, sections 3 to 7. Two records collect what the specification leaves open:
  \<open>Settings\<close> holds the constants and tables of the implementation, \<open>Collaborators\<close> the
  external parties. The model runs the panels one after the other, in narrative order; the
  specification's bounded parallelism and its rate limit are not part of it.
\<close>

text \<open>
  Modelled from the spec: the data model of section 3 and the errors of section 7. Image
  bytes are a list of 8-bit characters.
\<close>

type_synonym bytes = string

datatype GenerationError =
  ModerationRejected | QuotaExceeded | Timeout | NetworkError | MalformedResponse

datatype PanelError = GenerationFailed GenerationError | CompressionError

datatype RequestError = EmptyStoryError | PersistenceError

record Character =
  name :: string
  referenceImage :: bytes

record DraftPanel =
  index :: nat
  scene :: string
  dialogue :: string
  characterActions :: "string option"
  mood :: "string option"

record ComicPanel = DraftPanel +
  image :: "bytes option"

record GenerationRequest =
  panelIndex :: nat
  positivePrompt :: string
  negativePrompt :: string
  width :: nat
  height :: nat
  guidanceScale :: nat
  steps :: nat
  referenceImage :: "bytes option"
  referenceStrength :: "nat option"

text \<open>Exactly one of \<open>image\<close> and \<open>error\<close> is set in a result the pipeline builds.\<close>

record PanelResult =
  index :: nat
  image :: "bytes option"
  error :: "PanelError option"

record Comic =
  comicId :: string
  title :: string
  style :: string
  aspectRatio :: string
  storyText :: string
  panels :: "ComicPanel list"
  createdAt :: nat

text \<open>
  Modelled from the spec: the constants of the implementation, none of which is in the
  source files. \<open>units\<close> stands for the text heuristics of section 4.1 (segmentation,
  merging and splitting, extraction of dialogue, actions and mood): it yields the panels'
  contents in narrative order. \<open>strength\<close> is the reference strength in hundredths;
  a step of the \<open>schedule\<close> is a quality level and a linear scale.
\<close>

record Settings =
  units :: "string \<Rightarrow> DraftPanel list"
  knownNames :: "string list"
  styleTemplate :: "string \<Rightarrow> string"
  motifVocabulary :: "string list"
  motifTerm :: string
  descriptor :: "string \<Rightarrow> string"
  safetyList :: string
  geometry :: "string \<Rightarrow> nat \<times> nat"
  guidance :: "string \<Rightarrow> nat"
  stepCount :: "string \<Rightarrow> nat"
  strength :: nat
  sizeCeiling :: nat
  schedule :: "(nat \<times> nat) list"

text \<open>
  Modelled from the spec: the external collaborators of section 6. The generation service
  answers a request at an attempt (0 the first, 1 the retry) with raw image bytes or a
  failure; the codec re-encodes raw bytes at a step of the schedule; the persistence gateway
  returns an id or fails.
\<close>

record Collaborators =
  lookup :: "string \<Rightarrow> Character option"
  service :: "GenerationRequest \<Rightarrow> nat \<Rightarrow> GenerationError + bytes"
  encode :: "bytes \<Rightarrow> nat \<times> nat \<Rightarrow> bytes"
  save :: "Comic \<Rightarrow> string option"
  newId :: string
  clock :: nat

text \<open>
  Modelled from the spec: StoryParser (section 4.1), as far as the specification fixes it. A
  story of white space is refused; otherwise the units are numbered from 1 in their order.
\<close>

definition StoryParser :: "Settings \<Rightarrow> string \<Rightarrow> RequestError + DraftPanel list" where
  "StoryParser S text =
     (if trim text = [] then Inl EmptyStoryError
      else Inr (map (\<lambda>(i, u). u\<lparr>DraftPanel.index := i\<rparr>)
                  (zip [1..<Suc (length (units S text))] (units S text))))"

text \<open>
  Modelled from the spec: character tagging (section 4.1). A name tags a panel when it
  appears, in any letter case, in the panel's dialogue or character actions.
\<close>

definition tagged :: "DraftPanel \<Rightarrow> string \<Rightarrow> bool" where
  "tagged d n =
     (includesStr (toLowerCase (dialogue d)) (toLowerCase n) \<or>
      includesStr (toLowerCase (orEmpty (characterActions d))) (toLowerCase n))"

text \<open>
  Modelled from the spec: PromptEnhancer (section 4.2). The positive prompt is the style
  template, the scene, the mood if present, the motif term if the scene names no motif of
  the vocabulary, and the descriptors of the known names that tag the panel, in this order;
  the negative prompt is the safety list; geometry, guidance and steps come from the aspect
  ratio and the style; the reference image of the first tagged character that has one is
  attached with the fixed strength.
\<close>

definition PromptEnhancer ::
  "Settings \<Rightarrow> string \<Rightarrow> string \<Rightarrow> Character list \<Rightarrow> DraftPanel \<Rightarrow> GenerationRequest" where
  "PromptEnhancer S sty ratio cs d =
     (let present = filter (tagged d) (knownNames S);
          refs = filter (\<lambda>c. tagged d (name c)) cs;
          motif = (if list_ex (\<lambda>m. includesStr (toLowerCase (scene d)) m) (motifVocabulary S)
                   then [] else '', '' @ motifTerm S)
      in \<lparr>panelIndex = DraftPanel.index d,
          positivePrompt =
            styleTemplate S sty @ '', '' @ scene d @
            (case mood d of None \<Rightarrow> [] | Some m \<Rightarrow> '', '' @ m) @
            motif @
            concat (map (\<lambda>n. '', '' @ descriptor S n) present),
          negativePrompt = safetyList S,
          width = fst (geometry S ratio),
          height = snd (geometry S ratio),
          guidanceScale = guidance S sty,
          steps = stepCount S sty,
          referenceImage =
            (case refs of [] \<Rightarrow> None | c # _ \<Rightarrow> Some (Character.referenceImage c)),
          referenceStrength =
            (case refs of [] \<Rightarrow> None | c # _ \<Rightarrow> Some (strength S))\<rparr>)"

text \<open>
  Modelled from the spec: ImageGenerationAdapter (section 4.3). One request; a timeout or a
  network error is retried exactly once with the same request, every other failure is final.
\<close>

definition ImageGenerationAdapter :: "Collaborators \<Rightarrow> GenerationRequest \<Rightarrow> PanelResult" where
  "ImageGenerationAdapter E req =
     (let first = service E req 0;
          final = (case first of
                     Inl e \<Rightarrow> if e = Timeout \<or> e = NetworkError then service E req 1 else first
                   | Inr raw \<Rightarrow> first)
      in case final of
           Inl e \<Rightarrow> \<lparr>PanelResult.index = panelIndex req, image = None,
                      error = Some (GenerationFailed e)\<rparr>
         | Inr raw \<Rightarrow> \<lparr>PanelResult.index = panelIndex req, image = Some raw, error = None\<rparr>)"

text \<open>
  Modelled from the spec: ImageNormalizer (section 4.4). The steps of the schedule are tried
  in order; the first encoding within the ceiling is returned; past the last step the
  normalizer fails.
\<close>

fun normalize :: "(bytes \<Rightarrow> nat \<times> nat \<Rightarrow> bytes) \<Rightarrow> nat \<Rightarrow> bytes \<Rightarrow> (nat \<times> nat) list \<Rightarrow> bytes option" where
  "normalize enc limit raw [] = None"
| "normalize enc limit raw (q # qs) =
     (if length (enc raw q) \<le> limit then Some (enc raw q) else normalize enc limit raw qs)"

definition ImageNormalizer :: "Settings \<Rightarrow> Collaborators \<Rightarrow> bytes \<Rightarrow> PanelError + bytes" where
  "ImageNormalizer S E raw =
     (case normalize (encode E) (sizeCeiling S) raw (schedule S) of
        None \<Rightarrow> Inl CompressionError
      | Some out \<Rightarrow> Inr out)"

text \<open>
  Modelled from the spec: one panel's attempt (section 2): the request, the generation and,
  on success, the normalization, whose failure counts as the panel's failure.
\<close>

definition panelRequest :: "Settings \<Rightarrow> Collaborators \<Rightarrow> string \<Rightarrow> string \<Rightarrow> DraftPanel \<Rightarrow> GenerationRequest" where
  "panelRequest S E sty ratio d =
     PromptEnhancer S sty ratio (List.map_filter (lookup E) (knownNames S)) d"

definition panelAttempt :: "Settings \<Rightarrow> Collaborators \<Rightarrow> string \<Rightarrow> string \<Rightarrow> DraftPanel \<Rightarrow> PanelResult" where
  "panelAttempt S E sty ratio d =
     (let r = ImageGenerationAdapter E (panelRequest S E sty ratio d)
      in case PanelResult.image r of
           None \<Rightarrow> r
         | Some raw \<Rightarrow>
             (case ImageNormalizer S E raw of
                Inl e \<Rightarrow> r\<lparr>PanelResult.image := None, error := Some e\<rparr>
              | Inr out \<Rightarrow> r\<lparr>PanelResult.image := Some out\<rparr>))"

text \<open>
  Modelled from the spec: ComicAssembler (section 4.5). Every draft panel appears once, in
  the drafts' order, with the image of the result that carries its index; a panel with no
  result, or with a failed one, has no image.
\<close>

definition attach :: "PanelResult list \<Rightarrow> DraftPanel \<Rightarrow> ComicPanel" where
  "attach rs d =
     DraftPanel.extend d
       (ComicPanel.fields
          (case find (\<lambda>r. PanelResult.index r = DraftPanel.index d) rs of
             None \<Rightarrow> None
           | Some r \<Rightarrow> PanelResult.image r))"

definition ComicAssembler ::
  "Collaborators \<Rightarrow> string \<Rightarrow> string \<Rightarrow> string \<Rightarrow> string \<Rightarrow> DraftPanel list \<Rightarrow> PanelResult list \<Rightarrow> Comic" where
  "ComicAssembler E ttl sty ratio story ds rs =
     \<lparr>comicId = newId E, title = ttl, style = sty, aspectRatio = ratio, storyText = story,
      panels = map (attach rs) ds, createdAt = clock E\<rparr>"

text \<open>
  Modelled from the spec: \<open>createComic\<close> (section 6), the entry point. Without
  \<open>generateImages\<close> no request is built and no panel is attempted. A comic that cannot be
  stored is not returned.
\<close>

definition illustrate ::
  "Settings \<Rightarrow> Collaborators \<Rightarrow> string \<Rightarrow> string \<Rightarrow> bool \<Rightarrow> DraftPanel list \<Rightarrow> PanelResult list" where
  "illustrate S E sty ratio gen ds = (if gen then map (panelAttempt S E sty ratio) ds else [])"

definition createComic ::
  "Settings \<Rightarrow> Collaborators \<Rightarrow> string \<Rightarrow> string \<Rightarrow> string \<Rightarrow> string \<Rightarrow> bool \<Rightarrow> RequestError + Comic" where
  "createComic S E story ttl sty ratio gen =
     (case StoryParser S story of
        Inl e \<Rightarrow> Inl e
      | Inr ds \<Rightarrow>
          (let comic = ComicAssembler E ttl sty ratio story ds (illustrate S E sty ratio gen ds)
           in case save E comic of
                None \<Rightarrow> Inl PersistenceError
              | Some i \<Rightarrow> Inr comic))"

section \<open>The objects the frontend receives from the API\<close>

record api_character =
  name :: string
  image_base64 :: string

record api_panel =
  panel :: nat
  scene :: string
  dialogue :: string
  character_actions :: "string option"
  mood :: "string option"
  image_base64 :: "string option"

text \<open>The field \<open>comic_id\<close> is the JSON property \<^verbatim>\<open>id\<close>.\<close>

record api_comic =
  comic_id :: string
  title :: string
  style :: string
  aspect_ratio :: string
  story_text :: string
  created_at :: string
  panels :: "api_panel list"

section \<open>CharacterUpload: looking a character reference up by name\<close>

text \<open>
  \<^verbatim>\<open>getCharacterImage\<close> of CharacterUpload.jsx, with the component's \<^verbatim>\<open>characters\<close> state
  as an argument: the array that \<^verbatim>\<open>GET /api/characters\<close> delivered, or the empty array
  before that. Its elements are objects with a string \<^verbatim>\<open>name\<close>. \<^verbatim>\<open>Array.prototype.find\<close>
  returns the first match or \<^verbatim>\<open>undefined\<close>; the function returns a data URL or \<^verbatim>\<open>null\<close>.
\<close>

definition getCharacterImage :: "api_character list \<Rightarrow> string \<Rightarrow> string option" where
  "getCharacterImage characters characterName =
     (case find (\<lambda>c. toLowerCase (name c) = toLowerCase characterName) characters of
        Some character \<Rightarrow> Some (''data:image/png;base64,'' @ api_character.image_base64 character)
      | None \<Rightarrow> None)"

section \<open>ComicPanel and EnhancedComicViewer: character tags\<close>

text \<open>\<^verbatim>\<open>getCharacterTags\<close> of ComicPanel.jsx.\<close>

definition getCharacterTags :: "string \<Rightarrow> string list" where
  "getCharacterTags text =
     (if includesStr (toLowerCase text) ''jamie'' then [''jamie''] else []) @
     (if includesStr (toLowerCase text) ''kylee'' then [''kylee''] else [])"

text \<open>
  The tags ComicPanel renders for a panel:
  \<^verbatim>\<open>getCharacterTags(panel.dialogue + ' ' + (panel.character_actions || ''))\<close>.
\<close>

definition ComicPanel_tags :: "api_panel \<Rightarrow> string list" where
  "ComicPanel_tags p =
     getCharacterTags (dialogue p @ '' '' @ orEmpty (character_actions p))"

text \<open>
  The tags EnhancedComicViewer renders for a panel, each named by its CSS class:
  \<^verbatim>\<open>panel.dialogue.toLowerCase().includes(n) ||
    (panel.character_actions && panel.character_actions.toLowerCase().includes(n))\<close>.
\<close>

definition mentions :: "api_panel \<Rightarrow> string \<Rightarrow> bool" where
  "mentions p n =
     (includesStr (toLowerCase (dialogue p)) n \<or>
      (truthy (character_actions p) \<and> includesStr (toLowerCase (orEmpty (character_actions p))) n))"

definition EnhancedComicViewer_tags :: "api_panel \<Rightarrow> string list" where
  "EnhancedComicViewer_tags p =
     (if mentions p ''jamie'' then [''jamie''] else []) @
     (if mentions p ''kylee'' then [''kylee''] else [])"

section \<open>ComicViewer and EnhancedComicViewer: markdown export\<close>

text \<open>
  The text that \<^verbatim>\<open>handleExportMarkdown\<close> of EnhancedComicViewer.jsx puts into the
  downloaded file: one template literal per panel, joined by a newline, after the title.
\<close>

definition exportPanel :: "api_panel \<Rightarrow> string" where
  "exportPanel p =
     ''## Panel '' @ numberToString (panel p) @ ''\<newline>**Scene:** '' @ scene p @ ''\<newline>'' @
     (if truthy (character_actions p)
      then ''**Actions:** '' @ orEmpty (character_actions p) @ ''\<newline>'' else []) @
     (if truthy (mood p) then ''**Mood:** '' @ orEmpty (mood p) @ ''\<newline>'' else []) @
     ''**Dialogue:** '' @ dialogue p @ ''\<newline>''"

definition handleExportMarkdown :: "api_comic \<Rightarrow> string" where
  "handleExportMarkdown comic =
     ''# '' @ title comic @ ''\<newline>\<newline>'' @ join ''\<newline>'' (map exportPanel (panels comic))"

text \<open>\<^verbatim>\<open>handleExport\<close> of ComicViewer.jsx builds the same text with its own template.\<close>

definition handleExport :: "api_comic \<Rightarrow> string" where
  "handleExport comic =
     ''# '' @ title comic @ ''\<newline>\<newline>'' @
     join ''\<newline>''
       (map (\<lambda>p. ''## Panel '' @ numberToString (panel p) @ ''\<newline>**Scene:** '' @ scene p @ ''\<newline>'' @
                 (if truthy (character_actions p)
                  then ''**Actions:** '' @ orEmpty (character_actions p) @ ''\<newline>'' else []) @
                 (if truthy (mood p) then ''**Mood:** '' @ orEmpty (mood p) @ ''\<newline>'' else []) @
                 ''**Dialogue:** '' @ dialogue p @ ''\<newline>'')
            (panels comic))"

text \<open>
  The export as the specification words it: a document is a title and one block per panel;
  a block is a list of lines, each of one of five kinds.
\<close>

datatype md_line =
  Heading nat
| SceneLine string
| ActionsLine string
| MoodLine string
| DialogueLine string

fun render_line :: "md_line \<Rightarrow> string" where
  "render_line (Heading n) = ''## Panel '' @ numberToString n @ ''\<newline>''"
| "render_line (SceneLine s) = ''**Scene:** '' @ s @ ''\<newline>''"
| "render_line (ActionsLine s) = ''**Actions:** '' @ s @ ''\<newline>''"
| "render_line (MoodLine s) = ''**Mood:** '' @ s @ ''\<newline>''"
| "render_line (DialogueLine s) = ''**Dialogue:** '' @ s @ ''\<newline>''"

definition block_lines :: "api_panel \<Rightarrow> md_line list" where
  "block_lines p =
     [Heading (panel p), SceneLine (scene p)] @
     (case character_actions p of
        None \<Rightarrow> [] | Some a \<Rightarrow> if a = [] then [] else [ActionsLine a]) @
     (case mood p of
        None \<Rightarrow> [] | Some m \<Rightarrow> if m = [] then [] else [MoodLine m]) @
     [DialogueLine (dialogue p)]"

definition render_markdown :: "string \<Rightarrow> md_line list list \<Rightarrow> string" where
  "render_markdown t blocks =
     ''# '' @ t @ ''\<newline>\<newline>'' @ join ''\<newline>'' (map (\<lambda>b. concat (map render_line b)) blocks)"

section \<open>StoryInput, EnhancedStoryInput and App: submitting a story\<close>

text \<open>The argument of \<^verbatim>\<open>onSubmit\<close>. StoryInput sends the first two properties only.\<close>

record story_data =
  story :: string
  title :: string

record enhanced_story_data = story_data +
  style :: string
  aspect_ratio :: string
  generate_images :: bool

text \<open>The React state of the two forms.\<close>

record StoryInput_state =
  story :: string
  title :: string

record EnhancedStoryInput_state = StoryInput_state +
  style :: string
  aspectRatio :: string
  generateImages :: bool

text \<open>
  \<^verbatim>\<open>handleSubmit\<close> of StoryInput.jsx and of EnhancedStoryInput.jsx. The callback
  \<^verbatim>\<open>onSubmit\<close> acts on the state \<open>'s\<close> of whoever passed it in; a handler that does not
  call it returns that state as it was.
\<close>

definition StoryInput_handleSubmit ::
  "(story_data \<Rightarrow> 's \<Rightarrow> 's) \<Rightarrow> StoryInput_state \<Rightarrow> 's \<Rightarrow> 's" where
  "StoryInput_handleSubmit onSubmit f st =
     (if trim (StoryInput_state.story f) \<noteq> []
      then onSubmit
             \<lparr>story_data.story = trim (StoryInput_state.story f),
              story_data.title =
                (if trim (StoryInput_state.title f) \<noteq> [] then trim (StoryInput_state.title f)
                 else ''Untitled Story'')\<rparr> st
      else st)"

definition EnhancedStoryInput_handleSubmit ::
  "(enhanced_story_data \<Rightarrow> 's \<Rightarrow> 's) \<Rightarrow> EnhancedStoryInput_state \<Rightarrow> 's \<Rightarrow> 's" where
  "EnhancedStoryInput_handleSubmit onSubmit f st =
     (if trim (StoryInput_state.story f) \<noteq> []
      then onSubmit
             \<lparr>story_data.story = trim (StoryInput_state.story f),
              story_data.title =
                (if trim (StoryInput_state.title f) \<noteq> [] then trim (StoryInput_state.title f)
                 else ''Untitled Story''),
              enhanced_story_data.style = EnhancedStoryInput_state.style f,
              enhanced_story_data.aspect_ratio = aspectRatio f,
              enhanced_story_data.generate_images = generateImages f\<rparr> st
      else st)"

text \<open>
  App.js. The backend is outside the program: \<open>parse_story\<close> is the response to
  \<^verbatim>\<open>POST /api/parse-story\<close> and \<open>comics\<close> the response to \<^verbatim>\<open>GET /api/comics\<close>,
  \<^term>\<open>None\<close> when axios throws. The state keeps, next to the four React state variables,
  the list of requests sent so far.
\<close>

datatype http_request =
  POST_parse_story enhanced_story_data
| GET_comics

record backend =
  parse_story :: "enhanced_story_data \<Rightarrow> api_comic option"
  comics :: "api_comic list option"

record App_state =
  currentComic :: "api_comic option"
  isLoading :: bool
  error :: "string option"
  savedComics :: "api_comic list"
  sent :: "http_request list"

definition App_initial :: App_state where
  "App_initial =
     \<lparr>currentComic = None, isLoading = False, error = None, savedComics = [], sent = []\<rparr>"

definition fetchSavedComics :: "backend \<Rightarrow> App_state \<Rightarrow> App_state" where
  "fetchSavedComics be st =
     (let st' = st\<lparr>sent := sent st @ [GET_comics]\<rparr>
      in case comics be of
           Some data \<Rightarrow> st'\<lparr>savedComics := data\<rparr>
         | None \<Rightarrow> st')"

definition handleStorySubmit :: "backend \<Rightarrow> enhanced_story_data \<Rightarrow> App_state \<Rightarrow> App_state" where
  "handleStorySubmit be storyData st =
     (let st1 = st\<lparr>isLoading := True, error := None\<rparr>;
          st2 = st1\<lparr>sent := sent st1 @ [POST_parse_story storyData]\<rparr>;
          st3 = (case parse_story be storyData of
                   Some data \<Rightarrow>
                     fetchSavedComics be
                       (st2\<lparr>currentComic :=
                              Some (data\<lparr>story_text := story_data.story storyData\<rparr>)\<rparr>)
                 | None \<Rightarrow> st2\<lparr>error := Some ''Failed to create comic. Please try again.''\<rparr>)
      in st3\<lparr>isLoading := False\<rparr>)"

section \<open>Example inputs\<close>

definition example_characters :: "api_character list" where
  "example_characters =
     [\<lparr>name = ''Jamie'', api_character.image_base64 = ''AAAA''\<rparr>,
      \<lparr>name = ''KYLEE'', api_character.image_base64 = ''BBBB''\<rparr>,
      \<lparr>name = ''jamie'', api_character.image_base64 = ''CCCC''\<rparr>]"

definition split_name_panel :: api_panel where
  "split_name_panel =
     \<lparr>panel = 1, scene = ''A quiet attic'', dialogue = ''ja'',
      character_actions = Some ''mie'', mood = None, api_panel.image_base64 = None\<rparr>"

definition shouting_panel :: api_panel where
  "shouting_panel =
     \<lparr>panel = 2, scene = ''The portal opens'', dialogue = ''Look, JAMIE!'',
      character_actions = Some ''Bob waves at KyLee'', mood = Some '''',
      api_panel.image_base64 = None\<rparr>"

definition example_comic :: api_comic where
  "example_comic =
     \<lparr>comic_id = ''c1'', api_comic.title = ''The Crystal Portal'',
      api_comic.style = ''Mystical Watercolor'', api_comic.aspect_ratio = ''4:5'',
      story_text = ''Jamie and Kylee discover a portal.'', created_at = ''2025-01-01'',
      panels =
        [\<lparr>panel = 1, scene = ''An attic'', dialogue = ''Look!'',
          character_actions = Some ''Jamie points'', mood = None,
          api_panel.image_base64 = None\<rparr>,
         \<lparr>panel = 12, scene = ''A portal'', dialogue = [],
          character_actions = Some [], mood = Some ''awe'',
          api_panel.image_base64 = Some ''QUJD''\<rparr>]\<rparr>"

definition blank_form :: EnhancedStoryInput_state where
  "blank_form =
     \<lparr>StoryInput_state.story = '' \<newline>  '', StoryInput_state.title = ''My comic'',
      EnhancedStoryInput_state.style = ''Mystical Watercolor'', aspectRatio = ''4:5'',
      generateImages = True\<rparr>"

definition blank_story_form :: StoryInput_state where
  "blank_story_form = \<lparr>StoryInput_state.story = [], StoryInput_state.title = ''My comic''\<rparr>"

definition failing_backend :: backend where
  "failing_backend = \<lparr>parse_story = (\<lambda>d. None), comics = None\<rparr>"

text \<open>
  A deployment for the examples: four units whatever the story, the character jamie with a
  reference photo, a service that always delivers, and a codec whose output shrinks with the
  quality, so that the third step of the schedule is the first within the ceiling.
\<close>

definition example_settings :: Settings where
  "example_settings =
     \<lparr>units = (\<lambda>text.
         [\<lparr>DraftPanel.index = 0, scene = ''Jamie finds a glowing crystal'', dialogue = [],
           characterActions = Some ''Jamie kneels'', mood = Some ''wonder''\<rparr>,
          \<lparr>DraftPanel.index = 0, scene = ''A storm gathers'', dialogue = ''Run!'',
           characterActions = None, mood = None\<rparr>,
          \<lparr>DraftPanel.index = 0, scene = ''Kylee lights a candle'', dialogue = ''Stay close.'',
           characterActions = Some ''Kylee holds a candle'', mood = Some ''calm''\<rparr>,
          \<lparr>DraftPanel.index = 0, scene = ''They walk home'', dialogue = [],
           characterActions = None, mood = None\<rparr>]),
      knownNames = [''jamie'', ''kylee''],
      styleTemplate = (\<lambda>s. s @ '' style''),
      motifVocabulary = [''moon'', ''crystal'', ''candle'', ''tarot'', ''sigil''],
      motifTerm = ''moonlight'',
      descriptor = (\<lambda>n. n @ '' in a modest robe''),
      safetyList = ''nsfw, nude, revealing clothing, violence'',
      geometry = (\<lambda>r. if r = ''1:1'' then (1024, 1024) else (896, 1152)),
      guidance = (\<lambda>s. 15),
      stepCount = (\<lambda>s. 35),
      strength = 75,
      sizeCeiling = 4,
      schedule = [(90, 100), (60, 100), (30, 50)]\<rparr>"

definition example_collaborators :: Collaborators where
  "example_collaborators =
     \<lparr>lookup = (\<lambda>n. if n = ''jamie''
                    then Some \<lparr>Character.name = ''Jamie'', Character.referenceImage = ''J''\<rparr>
                    else None),
      service = (\<lambda>req attempt. Inr ''RAWIMAGE''),
      encode = (\<lambda>raw (q, s). take (q div 10) raw),
      save = (\<lambda>c. Some ''comic-1''),
      newId = ''comic-1'',
      clock = 0\<rparr>"

text \<open>The same collaborators, except that the service rejects every request for panel 2.\<close>

definition rejecting_panel_2 :: Collaborators where
  "rejecting_panel_2 =
     example_collaborators
       \<lparr>service := \<lambda>r a. if panelIndex r = 2 then Inl ModerationRejected
                         else service example_collaborators r a\<rparr>"

text \<open>The comic of the example story whose four panels carry the given images.\<close>

definition example_result :: "bytes option list \<Rightarrow> Comic" where
  "example_result ims =
     \<lparr>comicId = ''comic-1'', title = ''The storm'', style = ''Anime'', aspectRatio = ''4:5'',
      storyText = ''A story'',
      panels =
        map (\<lambda>(d, im). DraftPanel.extend d (ComicPanel.fields im))
          (zip
             [\<lparr>DraftPanel.index = 1, scene = ''Jamie finds a glowing crystal'', dialogue = [],
               characterActions = Some ''Jamie kneels'', mood = Some ''wonder''\<rparr>,
              \<lparr>DraftPanel.index = 2, scene = ''A storm gathers'', dialogue = ''Run!'',
               characterActions = None, mood = None\<rparr>,
              \<lparr>DraftPanel.index = 3, scene = ''Kylee lights a candle'',
               dialogue = ''Stay close.'',
               characterActions = Some ''Kylee holds a candle'', mood = Some ''calm''\<rparr>,
              \<lparr>DraftPanel.index = 4, scene = ''They walk home'', dialogue = [],
               characterActions = None, mood = None\<rparr>]
             ims),
      createdAt = 0\<rparr>"

section \<open>Facts about strings\<close>

lemma includesStr_iff: "includesStr s t \<longleftrightarrow> (\<exists>ps ss. s = ps @ t @ ss)"
proof (induction s)
  case Nil
  then show ?case by auto
next
  case (Cons c s)
  show ?case
  proof
    assume "includesStr (c # s) t"
    then consider "take (length t) (c # s) = t" | "includesStr s t" by auto
    then show "\<exists>ps ss. c # s = ps @ t @ ss"
    proof cases
      case 1
      then have "c # s = [] @ t @ drop (length t) (c # s)"
        by (metis append_Nil append_take_drop_id)
      then show ?thesis by blast
    next
      case 2
      then obtain ps ss where "s = ps @ t @ ss" using Cons.IH by blast
      then have "c # s = (c # ps) @ t @ ss" by simp
      then show ?thesis by blast
    qed
  next
    assume "\<exists>ps ss. c # s = ps @ t @ ss"
    then obtain ps ss where eq: "c # s = ps @ t @ ss" by blast
    show "includesStr (c # s) t"
    proof (cases ps)
      case Nil
      then have "take (length t) (c # s) = t" using eq by (metis append_Nil append_eq_conv_conj)
      then show ?thesis by simp
    next
      case (Cons p ps')
      then have "s = ps' @ t @ ss" using eq by simp
      then have "includesStr s t" using Cons.IH by blast
      then show ?thesis by simp
    qed
  qed
qed

lemma includesStr_map: "includesStr s w \<Longrightarrow> includesStr (map f s) (map f w)"
  unfolding includesStr_iff by (metis map_append)

lemma split_at_sep:
  assumes "xs @ c # ys = ps @ t @ ss" and "c \<notin> set t"
  shows "(\<exists>qs. xs = ps @ t @ qs) \<or> (\<exists>qs. ys = qs @ t @ ss)"
proof (cases "length (ps @ t) \<le> length xs")
  case True
  define n where "n = length (ps @ t)"
  have "take n (xs @ c # ys) = take n xs" using True by (simp add: n_def)
  moreover have "take n (ps @ t @ ss) = ps @ t" by (simp add: n_def)
  moreover have "take n (xs @ c # ys) = take n (ps @ t @ ss)" by (simp only: assms(1))
  ultimately have "take n xs = ps @ t" by simp
  then have "xs = (ps @ t) @ drop n xs" by (metis append_take_drop_id)
  then have "xs = ps @ t @ drop n xs" by simp
  then show ?thesis by blast
next
  case False
  then have lt: "length xs < length ps + length t" by simp
  have "length xs < length ps \<or> length ps \<le> length xs" by arith
  then show ?thesis
  proof
    assume l: "length xs < length ps"
    have "drop (Suc (length xs)) (xs @ c # ys) = ys" by simp
    moreover have "drop (Suc (length xs)) (ps @ t @ ss) = drop (Suc (length xs)) ps @ t @ ss"
      using l by simp
    ultimately have "ys = drop (Suc (length xs)) ps @ t @ ss" using assms(1) by simp
    then show ?thesis by blast
  next
    assume l: "length ps \<le> length xs"
    have "(xs @ c # ys) ! length xs = c" by simp
    moreover have "(ps @ t @ ss) ! length xs = t ! (length xs - length ps)"
    proof -
      have d: "length xs - length ps < length t" using l lt by arith
      have "(ps @ t @ ss) ! length xs = (t @ ss) ! (length xs - length ps)"
        using l by (simp add: nth_append)
      also have "\<dots> = t ! (length xs - length ps)" using d by (simp add: nth_append)
      finally show ?thesis .
    qed
    ultimately have "c = t ! (length xs - length ps)" using assms(1) by simp
    moreover have "length xs - length ps < length t" using l lt by arith
    ultimately have "c \<in> set t" by (metis nth_mem)
    then show ?thesis using assms(2) by simp
  qed
qed

lemma includesStr_sep:
  assumes "c \<notin> set t"
  shows "includesStr (xs @ c # ys) t \<longleftrightarrow> includesStr xs t \<or> includesStr ys t"
proof
  assume "includesStr (xs @ c # ys) t"
  then obtain ps ss where "xs @ c # ys = ps @ t @ ss" unfolding includesStr_iff by blast
  from split_at_sep[OF this assms] show "includesStr xs t \<or> includesStr ys t"
    unfolding includesStr_iff by blast
next
  assume "includesStr xs t \<or> includesStr ys t"
  then show "includesStr (xs @ c # ys) t"
  proof
    assume "includesStr xs t"
    then obtain ps ss where "xs = ps @ t @ ss" unfolding includesStr_iff by blast
    then have "xs @ c # ys = ps @ t @ (ss @ c # ys)" by simp
    then show ?thesis unfolding includesStr_iff by blast
  next
    assume "includesStr ys t"
    then obtain ps ss where "ys = ps @ t @ ss" unfolding includesStr_iff by blast
    then have "xs @ c # ys = (xs @ c # ps) @ t @ ss" by simp
    then show ?thesis unfolding includesStr_iff by blast
  qed
qed

lemma trim_Nil_iff: "trim s = [] \<longleftrightarrow> (\<forall>c\<in>set s. isWhiteSpace c)"
proof
  assume "trim s = []"
  then have "dropWhile isWhiteSpace (rev (dropWhile isWhiteSpace s)) = []"
    by (simp add: trim_def)
  then have "\<forall>c\<in>set (dropWhile isWhiteSpace s). isWhiteSpace c"
    by (simp add: dropWhile_eq_Nil_conv)
  moreover have "dropWhile isWhiteSpace s = [] \<or> \<not> isWhiteSpace (hd (dropWhile isWhiteSpace s))"
    using hd_dropWhile by blast
  ultimately have "dropWhile isWhiteSpace s = []"
    by (metis hd_in_set)
  then show "\<forall>c\<in>set s. isWhiteSpace c" by (simp add: dropWhile_eq_Nil_conv)
next
  assume a: "\<forall>c\<in>set s. isWhiteSpace c"
  have d: "dropWhile isWhiteSpace s = []" using a by (induction s) auto
  show "trim s = []" unfolding trim_def d by simp
qed

lemma toLowerChar_space: "toLowerChar CHR '' '' = CHR '' ''"
  by code_simp

lemma toLowerCase_append: "toLowerCase (a @ b) = toLowerCase a @ toLowerCase b"
  by (simp add: toLowerCase_def)

lemma toLowerCase_names: "toLowerCase ''jamie'' = ''jamie''" "toLowerCase ''kylee'' = ''kylee''"
  by code_simp+

section \<open>Character lookup\<close>

text \<open>
  Claim C3. Looking a character up by name compares names exactly, after lower-casing both
  sides: the lookup finds nothing exactly when no stored character has the queried name up
  to letter case, and then it returns \<^term>\<open>None\<close> (JavaScript \<^verbatim>\<open>null\<close>), a value and not an
  error; otherwise it returns the data URL of the first stored character whose name matches;
  and two queries that differ in letter case only get the same answer.
\<close>

theorem getCharacterImage_lookup:
  "(getCharacterImage cs n = None \<longleftrightarrow>
      (\<forall>c\<in>set cs. toLowerCase (name c) \<noteq> toLowerCase n)) \<and>
   (getCharacterImage cs n = Some url \<longleftrightarrow>
      (\<exists>i<length cs.
         toLowerCase (name (cs ! i)) = toLowerCase n \<and>
         (\<forall>j<i. toLowerCase (name (cs ! j)) \<noteq> toLowerCase n) \<and>
         url = ''data:image/png;base64,'' @ api_character.image_base64 (cs ! i))) \<and>
   (toLowerCase n = toLowerCase n' \<longrightarrow> getCharacterImage cs n = getCharacterImage cs n')"
proof (intro conjI impI)
  show "getCharacterImage cs n = None \<longleftrightarrow>
      (\<forall>c\<in>set cs. toLowerCase (name c) \<noteq> toLowerCase n)"
  proof (cases "find (\<lambda>c. toLowerCase (name c) = toLowerCase n) cs")
    case None
    have l: "getCharacterImage cs n = None"
      unfolding getCharacterImage_def None by simp
    have r: "\<forall>c\<in>set cs. toLowerCase (name c) \<noteq> toLowerCase n"
      using None unfolding find_None_iff by blast
    from l r show ?thesis by blast
  next
    case (Some c)
    have l: "getCharacterImage cs n \<noteq> None"
      unfolding getCharacterImage_def Some by simp
    have "c \<in> set cs \<and> toLowerCase (name c) = toLowerCase n"
      using Some unfolding find_Some_iff using nth_mem by blast
    with l show ?thesis by blast
  qed
next
  show "getCharacterImage cs n = Some url \<longleftrightarrow>
      (\<exists>i<length cs.
         toLowerCase (name (cs ! i)) = toLowerCase n \<and>
         (\<forall>j<i. toLowerCase (name (cs ! j)) \<noteq> toLowerCase n) \<and>
         url = ''data:image/png;base64,'' @ api_character.image_base64 (cs ! i))"
  proof (cases "find (\<lambda>c. toLowerCase (name c) = toLowerCase n) cs")
    case None
    then have "\<not> (\<exists>c. c \<in> set cs \<and> toLowerCase (name c) = toLowerCase n)"
      by (simp add: find_None_iff)
    then have "\<And>i. i < length cs \<Longrightarrow> toLowerCase (name (cs ! i)) \<noteq> toLowerCase n"
      using nth_mem by blast
    with None show ?thesis by (auto simp: getCharacterImage_def)
  next
    case (Some c)
    then obtain i where i: "i < length cs" "toLowerCase (name (cs ! i)) = toLowerCase n"
      "c = cs ! i" "\<forall>j<i. toLowerCase (name (cs ! j)) \<noteq> toLowerCase n"
      unfolding find_Some_iff by blast
    have uniq: "k = i" if "k < length cs" "toLowerCase (name (cs ! k)) = toLowerCase n"
      "\<forall>j<k. toLowerCase (name (cs ! j)) \<noteq> toLowerCase n" for k
      using that i by (metis nat_neq_iff)
    show ?thesis
    proof
      assume "getCharacterImage cs n = Some url"
      then have "url = ''data:image/png;base64,'' @ api_character.image_base64 (cs ! i)"
        using Some i(3) by (simp add: getCharacterImage_def)
      with i show "\<exists>i<length cs.
         toLowerCase (name (cs ! i)) = toLowerCase n \<and>
         (\<forall>j<i. toLowerCase (name (cs ! j)) \<noteq> toLowerCase n) \<and>
         url = ''data:image/png;base64,'' @ api_character.image_base64 (cs ! i)" by blast
    next
      assume "\<exists>i<length cs.
         toLowerCase (name (cs ! i)) = toLowerCase n \<and>
         (\<forall>j<i. toLowerCase (name (cs ! j)) \<noteq> toLowerCase n) \<and>
         url = ''data:image/png;base64,'' @ api_character.image_base64 (cs ! i)"
      then obtain k where k: "k < length cs" "toLowerCase (name (cs ! k)) = toLowerCase n"
        "\<forall>j<k. toLowerCase (name (cs ! j)) \<noteq> toLowerCase n"
        "url = ''data:image/png;base64,'' @ api_character.image_base64 (cs ! k)" by blast
      then have "k = i" using uniq by blast
      then show "getCharacterImage cs n = Some url"
        using Some i(3) k(4) by (simp add: getCharacterImage_def)
    qed
  qed
next
  assume "toLowerCase n = toLowerCase n'"
  then show "getCharacterImage cs n = getCharacterImage cs n'"
    by (simp add: getCharacterImage_def)
qed

theorem getCharacterImage_lookup_witness:
  "getCharacterImage example_characters ''bob'' = None \<and>
   getCharacterImage example_characters ''JAMIE'' = Some ''data:image/png;base64,AAAA'' \<and>
   getCharacterImage example_characters ''JAMIE'' = getCharacterImage example_characters ''jamie''"
proof -
  have "\<forall>c\<in>set example_characters. toLowerCase (name c) \<noteq> toLowerCase ''bob''"
    by code_simp
  then have 1: "getCharacterImage example_characters ''bob'' = None"
    using getCharacterImage_lookup [of example_characters "''bob''"] by blast
  have "toLowerCase ''JAMIE'' = toLowerCase ''jamie''" by code_simp
  then have 2: "getCharacterImage example_characters ''JAMIE'' =
      getCharacterImage example_characters ''jamie''"
    using getCharacterImage_lookup [of example_characters "''JAMIE''" _ "''jamie''"] by blast
  have 3: "getCharacterImage example_characters ''JAMIE'' = Some ''data:image/png;base64,AAAA''"
    by code_simp
  from 1 2 3 show ?thesis by blast
qed

section \<open>Character tags\<close>

lemma mentions_eq:
  "n \<noteq> [] \<Longrightarrow>
   mentions p n \<longleftrightarrow>
     includesStr (toLowerCase (dialogue p)) n \<or>
     includesStr (toLowerCase (orEmpty (character_actions p))) n"
  by (cases "character_actions p")
     (auto simp: mentions_def truthy_def orEmpty_def toLowerCase_def)

lemma joined_text_includes:
  "CHR '' '' \<notin> set n \<Longrightarrow>
   includesStr (toLowerCase (d @ '' '' @ a)) n \<longleftrightarrow>
     includesStr (toLowerCase d) n \<or> includesStr (toLowerCase a) n"
proof -
  assume n: "CHR '' '' \<notin> set n"
  have "toLowerCase (d @ '' '' @ a) = toLowerCase d @ CHR '' '' # toLowerCase a"
    by (simp add: toLowerCase_def toLowerChar_space)
  then show ?thesis using includesStr_sep [OF n] by simp
qed

text \<open>
  Claim C9, as amended. The two viewers tag a panel with the same names, taken from the
  fixed list jamie, kylee and from nowhere else: a name is a tag exactly when it occurs, after
  lower-casing, in the panel's dialogue or in its character actions (the empty string when
  absent), each text searched on its own. So a panel that mentions only other names gets no
  tag, and a panel one of whose two texts contains jamie or kylee in any letter case gets
  that tag. ComicPanel joins the two texts with one space before searching, which is why an
  occurrence cannot run from the dialogue into the actions.
\<close>

theorem character_tags:
  "ComicPanel_tags p =
     filter (\<lambda>n. includesStr (toLowerCase (dialogue p)) n \<or>
                  includesStr (toLowerCase (orEmpty (character_actions p))) n)
       [''jamie'', ''kylee''] \<and>
   EnhancedComicViewer_tags p = ComicPanel_tags p \<and>
   (toLowerCase w \<in> {''jamie'', ''kylee''} \<and>
    (includesStr (dialogue p) w \<or> includesStr (orEmpty (character_actions p)) w) \<longrightarrow>
      toLowerCase w \<in> set (ComicPanel_tags p))"
proof -
  have j: "includesStr (toLowerCase (dialogue p @ '' '' @ orEmpty (character_actions p))) ''jamie''
      \<longleftrightarrow> includesStr (toLowerCase (dialogue p)) ''jamie'' \<or>
          includesStr (toLowerCase (orEmpty (character_actions p))) ''jamie''"
    by (rule joined_text_includes) simp
  have k: "includesStr (toLowerCase (dialogue p @ '' '' @ orEmpty (character_actions p))) ''kylee''
      \<longleftrightarrow> includesStr (toLowerCase (dialogue p)) ''kylee'' \<or>
          includesStr (toLowerCase (orEmpty (character_actions p))) ''kylee''"
    by (rule joined_text_includes) simp
  have 1: "ComicPanel_tags p =
     filter (\<lambda>n. includesStr (toLowerCase (dialogue p)) n \<or>
                  includesStr (toLowerCase (orEmpty (character_actions p))) n)
       [''jamie'', ''kylee'']"
    unfolding ComicPanel_tags_def getCharacterTags_def j k by simp
  have mj: "mentions p ''jamie'' \<longleftrightarrow>
      includesStr (toLowerCase (dialogue p)) ''jamie'' \<or>
      includesStr (toLowerCase (orEmpty (character_actions p))) ''jamie''"
    by (rule mentions_eq) simp
  have mk: "mentions p ''kylee'' \<longleftrightarrow>
      includesStr (toLowerCase (dialogue p)) ''kylee'' \<or>
      includesStr (toLowerCase (orEmpty (character_actions p))) ''kylee''"
    by (rule mentions_eq) simp
  have 2: "EnhancedComicViewer_tags p = ComicPanel_tags p"
    unfolding 1 EnhancedComicViewer_tags_def mj mk by simp
  have 3: "toLowerCase w \<in> set (ComicPanel_tags p)"
    if w: "toLowerCase w \<in> {''jamie'', ''kylee''}"
      and i: "includesStr (dialogue p) w \<or> includesStr (orEmpty (character_actions p)) w"
  proof -
    from i have "includesStr (toLowerCase (dialogue p)) (toLowerCase w) \<or>
        includesStr (toLowerCase (orEmpty (character_actions p))) (toLowerCase w)"
      unfolding toLowerCase_def using includesStr_map by blast
    with w show ?thesis unfolding 1 by auto
  qed
  from 1 2 3 show ?thesis by blast
qed

theorem character_tags_witness:
  "ComicPanel_tags shouting_panel = [''jamie'', ''kylee''] \<and>
   EnhancedComicViewer_tags shouting_panel = [''jamie'', ''kylee''] \<and>
   toLowerCase ''KyLee'' \<in> set (ComicPanel_tags shouting_panel)"
proof -
  note t = character_tags [of shouting_panel "''KyLee''"]
  have a: "filter (\<lambda>n. includesStr (toLowerCase (dialogue shouting_panel)) n \<or>
                  includesStr (toLowerCase (orEmpty (character_actions shouting_panel))) n)
       [''jamie'', ''kylee''] = [''jamie'', ''kylee'']"
    by code_simp
  have b: "toLowerCase ''KyLee'' \<in> {''jamie'', ''kylee''}" by code_simp
  have c: "includesStr (orEmpty (character_actions shouting_panel)) ''KyLee''" by code_simp
  from t a b c show ?thesis by simp
qed

text \<open>
  Claim C9 as it was stated, with containment in the dialogue directly followed by the
  character actions, fails for a panel whose dialogue ends with "ja" and whose actions start
  with "mie": the concatenation contains the name, and neither viewer shows a tag.
\<close>

theorem character_tags_counterexample:
  "includesStr
     (toLowerCase (dialogue split_name_panel @ orEmpty (character_actions split_name_panel)))
     ''jamie'' \<and>
   ComicPanel_tags split_name_panel = [] \<and>
   EnhancedComicViewer_tags split_name_panel = []"
  by code_simp

section \<open>Markdown export\<close>

lemma exportPanel_block: "exportPanel p = concat (map render_line (block_lines p))"
  by (cases "character_actions p"; cases "mood p")
     (simp_all add: exportPanel_def block_lines_def truthy_def orEmpty_def)

lemma handleExport_eq: "handleExport c = handleExportMarkdown c"
proof -
  have "(\<lambda>p. ''## Panel '' @ numberToString (panel p) @ ''\<newline>**Scene:** '' @ scene p @ ''\<newline>'' @
                 (if truthy (character_actions p)
                  then ''**Actions:** '' @ orEmpty (character_actions p) @ ''\<newline>'' else []) @
                 (if truthy (mood p) then ''**Mood:** '' @ orEmpty (mood p) @ ''\<newline>'' else []) @
                 ''**Dialogue:** '' @ dialogue p @ ''\<newline>'') = exportPanel"
    by (rule ext) (simp only: exportPanel_def)
  then show ?thesis by (simp only: handleExport_def handleExportMarkdown_def)
qed

lemma block_lines_actions:
  "ActionsLine a \<in> set (block_lines p) \<longleftrightarrow> character_actions p = Some a \<and> a \<noteq> []"
  by (cases "character_actions p"; cases "mood p") (auto simp: block_lines_def)

lemma block_lines_mood:
  "MoodLine m \<in> set (block_lines p) \<longleftrightarrow> mood p = Some m \<and> m \<noteq> []"
  by (cases "character_actions p"; cases "mood p") (auto simp: block_lines_def)

text \<open>
  Claim C10. The exported markdown is determined by the comic's title and its panels: it is
  the title header followed by one block per panel, in the order of the array. Either
  viewer's export produces this same text. A block starts with the panel's heading and its
  Scene line and ends with its Dialogue line; it has an Actions line exactly when the panel's
  character actions are present and not empty, and a Mood line exactly when its mood is
  present and not empty.
\<close>

theorem markdown_export:
  "handleExportMarkdown c = render_markdown (api_comic.title c) (map block_lines (panels c)) \<and>
   handleExport c = handleExportMarkdown c \<and>
   take 2 (block_lines p) = [Heading (panel p), SceneLine (scene p)] \<and>
   last (block_lines p) = DialogueLine (dialogue p) \<and>
   (ActionsLine a \<in> set (block_lines p) \<longleftrightarrow> character_actions p = Some a \<and> a \<noteq> []) \<and>
   (MoodLine m \<in> set (block_lines p) \<longleftrightarrow> mood p = Some m \<and> m \<noteq> [])"
proof -
  have "map exportPanel (panels c) =
      map (\<lambda>b. concat (map render_line b)) (map block_lines (panels c))"
    by (simp add: exportPanel_block)
  then have 1: "handleExportMarkdown c =
      render_markdown (api_comic.title c) (map block_lines (panels c))"
    by (simp only: handleExportMarkdown_def render_markdown_def)
  have 3: "take 2 (block_lines p) = [Heading (panel p), SceneLine (scene p)]"
    by (simp add: block_lines_def)
  have 4: "last (block_lines p) = DialogueLine (dialogue p)"
    by (simp add: block_lines_def)
  from 1 handleExport_eq 3 4 block_lines_actions block_lines_mood show ?thesis by blast
qed

theorem markdown_export_witness:
  "handleExportMarkdown example_comic =
     ''# The Crystal Portal\<newline>\<newline>## Panel 1\<newline>**Scene:** An attic\<newline>**Actions:** Jamie points\<newline>**Dialogue:** Look!\<newline>\<newline>## Panel 12\<newline>**Scene:** A portal\<newline>**Mood:** awe\<newline>**Dialogue:** \<newline>'' \<and>
   handleExport example_comic = handleExportMarkdown example_comic"
proof -
  note t = markdown_export [of example_comic "hd (panels example_comic)" "''Jamie points''" "''awe''"]
  have "render_markdown (api_comic.title example_comic) (map block_lines (panels example_comic)) =
     ''# The Crystal Portal\<newline>\<newline>## Panel 1\<newline>**Scene:** An attic\<newline>**Actions:** Jamie points\<newline>**Dialogue:** Look!\<newline>\<newline>## Panel 12\<newline>**Scene:** A portal\<newline>**Mood:** awe\<newline>**Dialogue:** \<newline>''"
    by code_simp
  with t show ?thesis by simp
qed

section \<open>Submitting a blank story\<close>

text \<open>
  Claim C4, as amended. When the story field of either form is empty or holds only white
  space, \<^verbatim>\<open>handleSubmit\<close> does not call \<^verbatim>\<open>onSubmit\<close>, whatever the callback is: the state
  of the caller is returned as it was. In App this means that no request is sent, so nothing
  is parsed or generated, and that the error message is not set either.
\<close>

theorem blank_story_not_submitted:
  assumes "\<forall>c\<in>set (StoryInput_state.story f). isWhiteSpace c"
    and "\<forall>c\<in>set (StoryInput_state.story g). isWhiteSpace c"
  shows "StoryInput_handleSubmit onSubmit f st = st \<and>
         EnhancedStoryInput_handleSubmit onSubmit' g st' = st' \<and>
         EnhancedStoryInput_handleSubmit (handleStorySubmit be) g app = app"
proof -
  have "trim (StoryInput_state.story f) = []" using assms(1) by (simp only: trim_Nil_iff)
  moreover have "trim (StoryInput_state.story g) = []" using assms(2) by (simp only: trim_Nil_iff)
  ultimately show ?thesis
    by (simp add: StoryInput_handleSubmit_def EnhancedStoryInput_handleSubmit_def)
qed

theorem blank_story_not_submitted_witness:
  "EnhancedStoryInput_handleSubmit (handleStorySubmit failing_backend) blank_form App_initial
     = App_initial \<and>
   StoryInput_handleSubmit (\<lambda>d n. Suc n) blank_story_form (0::nat) = 0"
proof -
  have b: "\<forall>c\<in>set (StoryInput_state.story blank_form). isWhiteSpace c"
    by code_simp
  have b': "\<forall>c\<in>set (StoryInput_state.story blank_story_form). isWhiteSpace c"
    by (simp add: blank_story_form_def)
  note t = blank_story_not_submitted [OF b' b, where onSubmit = "\<lambda>d n. Suc n" and st = "0::nat"
      and onSubmit' = "\<lambda>d n. Suc n" and st' = "0::nat"
      and be = failing_backend and app = App_initial]
  from t show ?thesis by blast
qed

text \<open>
  Claim C4 as it was stated expects the request to fail with an error. Submitting a story of
  white space from the initial state of App, with a backend that would fail any request,
  leaves the error unset.
\<close>

theorem blank_story_no_error_counterexample:
  "App_state.error
     (EnhancedStoryInput_handleSubmit (handleStorySubmit failing_backend) blank_form App_initial)
     = None"
proof -
  have "trim (StoryInput_state.story blank_form) = []" by code_simp
  then show ?thesis
    by (simp add: EnhancedStoryInput_handleSubmit_def App_initial_def)
qed

section \<open>The pipeline: facts about its components\<close>

lemma panelRequest_index: "panelIndex (panelRequest S E sty ratio d) = DraftPanel.index d"
  by (simp add: panelRequest_def PromptEnhancer_def Let_def)

lemma adapter_index: "PanelResult.index (ImageGenerationAdapter E req) = panelIndex req"
  by (simp add: ImageGenerationAdapter_def Let_def split: sum.splits)

lemma panelAttempt_index: "PanelResult.index (panelAttempt S E sty ratio d) = DraftPanel.index d"
  by (simp add: panelAttempt_def Let_def adapter_index panelRequest_index
      split: option.splits sum.splits)

lemma truncate_attach: "DraftPanel.truncate (attach rs d) = d"
  by (simp add: attach_def DraftPanel.defs ComicPanel.defs)

lemma attach_no_results: "attach [] d = (attach rs d)\<lparr>ComicPanel.image := None\<rparr>"
  by (simp add: attach_def DraftPanel.defs ComicPanel.defs)

lemma attach_image_None: "ComicPanel.image (attach [] d) = None"
  by (simp add: attach_def DraftPanel.defs ComicPanel.defs)

lemma attach_index: "DraftPanel.index (attach rs d) = DraftPanel.index d"
  by (simp add: attach_def DraftPanel.defs ComicPanel.defs)

text \<open>The service that fails every request for panel \<open>k\<close> with \<open>e\<close> and is \<open>E\<close>'s otherwise.\<close>

lemma adapter_failing:
  assumes "panelIndex req = k"
  shows "ImageGenerationAdapter
           (E\<lparr>service := \<lambda>r a. if panelIndex r = k then Inl e else service E r a\<rparr>) req =
         \<lparr>PanelResult.index = k, image = None, error = Some (GenerationFailed e)\<rparr>"
  using assms by (simp add: ImageGenerationAdapter_def Let_def)

lemma adapter_other:
  assumes "panelIndex req \<noteq> k"
  shows "ImageGenerationAdapter
           (E\<lparr>service := \<lambda>r a. if panelIndex r = k then Inl e else service E r a\<rparr>) req =
         ImageGenerationAdapter E req"
proof -
  have eq: "service (E\<lparr>service := \<lambda>r a. if panelIndex r = k then Inl e else service E r a\<rparr>) req =
      service E req"
    using assms by (simp add: fun_eq_iff)
  show ?thesis unfolding ImageGenerationAdapter_def eq ..
qed

lemma panelAttempt_failing:
  assumes "DraftPanel.index d = k"
  shows "PanelResult.image
           (panelAttempt S (E\<lparr>service := \<lambda>r a. if panelIndex r = k then Inl e else service E r a\<rparr>)
              sty ratio d) = None"
proof -
  let ?E = "E\<lparr>service := \<lambda>r a. if panelIndex r = k then Inl e else service E r a\<rparr>"
  have "panelIndex (panelRequest S ?E sty ratio d) = k"
    using assms by (simp add: panelRequest_index)
  then have "ImageGenerationAdapter ?E (panelRequest S ?E sty ratio d) =
      \<lparr>PanelResult.index = k, image = None, error = Some (GenerationFailed e)\<rparr>"
    by (rule adapter_failing)
  then show ?thesis by (simp add: panelAttempt_def)
qed

lemma panelAttempt_other:
  assumes "DraftPanel.index d \<noteq> k"
  shows "panelAttempt S (E\<lparr>service := \<lambda>r a. if panelIndex r = k then Inl e else service E r a\<rparr>)
           sty ratio d = panelAttempt S E sty ratio d"
proof -
  let ?E = "E\<lparr>service := \<lambda>r a. if panelIndex r = k then Inl e else service E r a\<rparr>"
  have r: "panelRequest S ?E sty ratio d = panelRequest S E sty ratio d"
    by (simp add: panelRequest_def)
  have "panelIndex (panelRequest S E sty ratio d) \<noteq> k"
    using assms by (simp add: panelRequest_index)
  then have a: "ImageGenerationAdapter ?E (panelRequest S E sty ratio d) =
      ImageGenerationAdapter E (panelRequest S E sty ratio d)"
    by (rule adapter_other)
  have n: "ImageNormalizer S ?E raw = ImageNormalizer S E raw" for raw
    by (simp add: ImageNormalizer_def)
  show ?thesis unfolding panelAttempt_def r a n ..
qed

lemma found_image_failing:
  fixes S E sty ratio k e
  defines "E' \<equiv> E\<lparr>service := \<lambda>r a. if panelIndex r = k then Inl e else service E r a\<rparr>"
  shows "(case find (\<lambda>r. PanelResult.index r = j) (map (panelAttempt S E' sty ratio) ds) of
            None \<Rightarrow> None | Some r \<Rightarrow> PanelResult.image r) =
         (if j = k then None
          else (case find (\<lambda>r. PanelResult.index r = j) (map (panelAttempt S E sty ratio) ds) of
                  None \<Rightarrow> None | Some r \<Rightarrow> PanelResult.image r))"
proof (induction ds)
  case Nil
  then show ?case by simp
next
  case (Cons d ds)
  show ?case
  proof (cases "DraftPanel.index d = j")
    case hit: True
    show ?thesis
    proof (cases "j = k")
      case True
      with hit have "PanelResult.image (panelAttempt S E' sty ratio d) = None"
        unfolding E'_def by (simp add: panelAttempt_failing)
      with hit True show ?thesis by (simp add: panelAttempt_index)
    next
      case False
      with hit have "panelAttempt S E' sty ratio d = panelAttempt S E sty ratio d"
        unfolding E'_def by (simp add: panelAttempt_other)
      with hit False show ?thesis by (simp add: panelAttempt_index)
    qed
  next
    case False
    then show ?thesis using Cons.IH by (simp add: panelAttempt_index)
  qed
qed

lemma attach_failing:
  fixes S E sty ratio k e
  defines "E' \<equiv> E\<lparr>service := \<lambda>r a. if panelIndex r = k then Inl e else service E r a\<rparr>"
  shows "attach (map (panelAttempt S E' sty ratio) ds) d =
         (if DraftPanel.index d = k
          then (attach (map (panelAttempt S E sty ratio) ds) d)\<lparr>ComicPanel.image := None\<rparr>
          else attach (map (panelAttempt S E sty ratio) ds) d)"
  unfolding attach_def E'_def found_image_failing
  by (simp add: DraftPanel.defs ComicPanel.defs)

lemma createComic_Inr:
  assumes "createComic S E txt ttl sty ratio gen = Inr c"
  obtains ds where "StoryParser S txt = Inr ds"
    and "c = ComicAssembler E ttl sty ratio txt ds (illustrate S E sty ratio gen ds)"
  using assms
  by (auto simp: createComic_def Let_def split: sum.splits option.splits)

lemma panels_truncate:
  "map DraftPanel.truncate (Comic.panels (ComicAssembler E ttl sty ratio txt ds rs)) = ds"
  by (simp add: ComicAssembler_def truncate_attach comp_def)

lemma example_run_all:
  "createComic example_settings example_collaborators ''A story'' ''The storm'' ''Anime'' ''4:5'' True
     = Inr (example_result [Some ''RAW'', Some ''RAW'', Some ''RAW'', Some ''RAW''])"
  by code_simp

lemma example_run_rejecting:
  "createComic example_settings rejecting_panel_2 ''A story'' ''The storm'' ''Anime'' ''4:5'' True
     = Inr (example_result [Some ''RAW'', None, Some ''RAW'', Some ''RAW''])"
  by code_simp

lemma example_run_skipping:
  "createComic example_settings example_collaborators ''A story'' ''The storm'' ''Anime'' ''4:5'' False
     = Inr (example_result [None, None, None, None])"
  by code_simp

section \<open>The pipeline: a failed panel\<close>

text \<open>
  Claim C2. Take any run of the pipeline that returns a comic, and the run that differs only
  in that the generation service fails every request for panel \<open>k\<close> with the error
  \<open>e\<close>. If the second run returns a comic too, its panels are the panels of the first, in
  the same order, except that the panel with index \<open>k\<close> has no image: no panel is removed,
  and index, scene, dialogue, character actions, mood and image of every other panel are
  what they were. The panels without their images are the draft panels of the parser.
\<close>

theorem panel_failure_is_local:
  assumes "createComic S E txt ttl sty ratio True = Inr c"
    and "createComic S (E\<lparr>service := \<lambda>r a. if panelIndex r = k then Inl e else service E r a\<rparr>)
           txt ttl sty ratio True = Inr c'"
  shows "Comic.panels c' =
           map (\<lambda>p. if DraftPanel.index p = k then p\<lparr>ComicPanel.image := None\<rparr> else p)
             (Comic.panels c) \<and>
         StoryParser S txt = Inr (map DraftPanel.truncate (Comic.panels c'))"
proof -
  let ?E = "E\<lparr>service := \<lambda>r a. if panelIndex r = k then Inl e else service E r a\<rparr>"
  from assms(1) obtain ds where ds: "StoryParser S txt = Inr ds"
    and c: "c = ComicAssembler E ttl sty ratio txt ds (illustrate S E sty ratio True ds)"
    by (rule createComic_Inr)
  from assms(2) obtain ds' where ds': "StoryParser S txt = Inr ds'"
    and c': "c' = ComicAssembler ?E ttl sty ratio txt ds' (illustrate S ?E sty ratio True ds')"
    by (rule createComic_Inr)
  from ds ds' have same: "ds' = ds" by simp
  have "Comic.panels c' = map (attach (map (panelAttempt S ?E sty ratio) ds)) ds"
    unfolding c' same by (simp add: ComicAssembler_def illustrate_def)
  also have "\<dots> = map (\<lambda>d. if DraftPanel.index d = k
        then (attach (map (panelAttempt S E sty ratio) ds) d)\<lparr>ComicPanel.image := None\<rparr>
        else attach (map (panelAttempt S E sty ratio) ds) d) ds"
    by (rule map_cong [OF refl]) (rule attach_failing)
  also have "\<dots> = map (\<lambda>p. if DraftPanel.index p = k then p\<lparr>ComicPanel.image := None\<rparr> else p)
      (map (attach (map (panelAttempt S E sty ratio) ds)) ds)"
    by (simp add: attach_index comp_def)
  also have "map (attach (map (panelAttempt S E sty ratio) ds)) ds = Comic.panels c"
    unfolding c by (simp add: ComicAssembler_def illustrate_def)
  finally have 1: "Comic.panels c' =
      map (\<lambda>p. if DraftPanel.index p = k then p\<lparr>ComicPanel.image := None\<rparr> else p)
        (Comic.panels c)" .
  have 2: "StoryParser S txt = Inr (map DraftPanel.truncate (Comic.panels c'))"
    unfolding c' same panels_truncate by (rule ds)
  from 1 2 show ?thesis ..
qed

theorem panel_failure_is_local_witness:
  "createComic example_settings example_collaborators ''A story'' ''The storm'' ''Anime'' ''4:5'' True
     = Inr (example_result [Some ''RAW'', Some ''RAW'', Some ''RAW'', Some ''RAW'']) \<and>
   createComic example_settings rejecting_panel_2 ''A story'' ''The storm'' ''Anime'' ''4:5'' True
     = Inr (example_result [Some ''RAW'', None, Some ''RAW'', Some ''RAW'']) \<and>
   Comic.panels (example_result [Some ''RAW'', None, Some ''RAW'', Some ''RAW'']) =
     map (\<lambda>p. if DraftPanel.index p = 2 then p\<lparr>ComicPanel.image := None\<rparr> else p)
       (Comic.panels (example_result [Some ''RAW'', Some ''RAW'', Some ''RAW'', Some ''RAW''])) \<and>
   length (Comic.panels (example_result [Some ''RAW'', None, Some ''RAW'', Some ''RAW''])) = 4"
proof -
  note t = panel_failure_is_local [OF example_run_all
      example_run_rejecting [unfolded rejecting_panel_2_def]]
  have "length (Comic.panels (example_result [Some ''RAW'', None, Some ''RAW'', Some ''RAW''])) = 4"
    by (simp add: example_result_def)
  with t example_run_all example_run_rejecting show ?thesis by blast
qed

section \<open>The pipeline: skipping image generation\<close>

text \<open>
  Claim C8. When the call without image generation and the same call with it both return a
  comic, the first comic's panels are the second's with the image unset: every panel of the
  first has no image, and index, scene, dialogue, character actions and mood agree panel by
  panel.
\<close>

theorem skipping_images_keeps_text:
  assumes "createComic S E txt ttl sty ratio False = Inr c"
    and "createComic S E txt ttl sty ratio True = Inr c'"
  shows "Comic.panels c = map (\<lambda>p. p\<lparr>ComicPanel.image := None\<rparr>) (Comic.panels c') \<and>
         map ComicPanel.image (Comic.panels c) = replicate (length (Comic.panels c')) None \<and>
         map DraftPanel.truncate (Comic.panels c) = map DraftPanel.truncate (Comic.panels c')"
proof -
  from assms(1) obtain ds where ds: "StoryParser S txt = Inr ds"
    and c: "c = ComicAssembler E ttl sty ratio txt ds (illustrate S E sty ratio False ds)"
    by (rule createComic_Inr)
  from assms(2) obtain ds' where ds': "StoryParser S txt = Inr ds'"
    and c': "c' = ComicAssembler E ttl sty ratio txt ds' (illustrate S E sty ratio True ds')"
    by (rule createComic_Inr)
  from ds ds' have same: "ds' = ds" by simp
  have pc: "Comic.panels c = map (attach []) ds"
    unfolding c by (simp add: ComicAssembler_def illustrate_def)
  have pc': "Comic.panels c' = map (attach (map (panelAttempt S E sty ratio) ds)) ds"
    unfolding c' same by (simp add: ComicAssembler_def illustrate_def)
  have 1: "Comic.panels c = map (\<lambda>p. p\<lparr>ComicPanel.image := None\<rparr>) (Comic.panels c')"
    unfolding pc pc' using attach_no_results by (simp add: comp_def)
  have 2: "map ComicPanel.image (Comic.panels c) = replicate (length (Comic.panels c')) None"
    unfolding pc pc' by (simp add: comp_def attach_image_None map_replicate_const)
  have 3: "map DraftPanel.truncate (Comic.panels c) = map DraftPanel.truncate (Comic.panels c')"
    unfolding c c' same panels_truncate ..
  from 1 2 3 show ?thesis by blast
qed

theorem skipping_images_keeps_text_witness:
  "createComic example_settings example_collaborators ''A story'' ''The storm'' ''Anime'' ''4:5'' False
     = Inr (example_result [None, None, None, None]) \<and>
   createComic example_settings example_collaborators ''A story'' ''The storm'' ''Anime'' ''4:5'' True
     = Inr (example_result [Some ''RAW'', Some ''RAW'', Some ''RAW'', Some ''RAW'']) \<and>
   map ComicPanel.image (Comic.panels (example_result [None, None, None, None])) =
     [None, None, None, None] \<and>
   map DraftPanel.truncate (Comic.panels (example_result [None, None, None, None])) =
     map DraftPanel.truncate
       (Comic.panels (example_result [Some ''RAW'', Some ''RAW'', Some ''RAW'', Some ''RAW'']))"
proof -
  note t = skipping_images_keeps_text [OF example_run_skipping example_run_all]
  have r: "replicate
      (length (Comic.panels (example_result [Some ''RAW'', Some ''RAW'', Some ''RAW'', Some ''RAW''])))
      None = [None, None, None, None :: bytes option]"
    by (simp add: example_result_def)
  from t have a: "map ComicPanel.image (Comic.panels (example_result [None, None, None, None])) =
      [None, None, None, None]"
    unfolding r by blast
  from t have b: "map DraftPanel.truncate (Comic.panels (example_result [None, None, None, None])) =
     map DraftPanel.truncate
       (Comic.panels (example_result [Some ''RAW'', Some ''RAW'', Some ''RAW'', Some ''RAW'']))"
    by blast
  from example_run_skipping example_run_all a b show ?thesis by blast
qed

end
